theory Spec2Isabelle
  imports Main
begin

section \<open>Shared values\<close>

text \<open>
  Option objects, metadata and configuration blobs are plain JavaScript values at run time.
  Only the part of the language the code reads is modelled: property lookup with optional
  chaining and truthiness.
\<close>

datatype js_value =
    JUndefined
  | JNull
  | JBool bool
  | JNum int
  | JStr string
  | JObj "(string \<times> js_value) list"

text \<open>The truthiness test behind \<open>||\<close>, \<open>!\<close> and \<open>if\<close>.\<close>

fun truthy :: "js_value \<Rightarrow> bool" where
  "truthy JUndefined = False"
| "truthy JNull = False"
| "truthy (JBool b) = b"
| "truthy (JNum n) = (n \<noteq> 0)"
| "truthy (JStr s) = (s \<noteq> [])"
| "truthy (JObj kvs) = True"

text \<open>\<open>x?.p\<close>: the property of an object, \<open>undefined\<close> for everything else.\<close>

fun opt_get :: "js_value \<Rightarrow> string \<Rightarrow> js_value" where
  "opt_get (JObj kvs) p = (case map_of kvs p of Some v \<Rightarrow> v | None \<Rightarrow> JUndefined)"
| "opt_get v p = JUndefined"

text \<open>
  Errors are values. The first four constructors are the four places where the registry
  throws a \<open>StorageConfigurationException\<close>; \<open>Error\<close> is any other error object, as
  thrown by a listener or by a backend.
\<close>

datatype error =
    NotRegistered string "string list"
  | NotReady string
  | NoDefaultAdapter "string list"
  | CannotSetDefault string "string list"
  | Error string

fun is_configuration_error :: "error \<Rightarrow> bool" where
  "is_configuration_error (Error msg) = False"
| "is_configuration_error e = True"

text \<open>
  \<open>String.prototype.toLowerCase\<close> on the ASCII letters; every other byte is left as it
  is.
\<close>

definition lower_char :: "char \<Rightarrow> char" where
  "lower_char c =
     (case map_of (zip ''ABCDEFGHIJKLMNOPQRSTUVWXYZ'' ''abcdefghijklmnopqrstuvwxyz'') c of
        Some d \<Rightarrow> d
      | None \<Rightarrow> c)"

definition toLowerCase :: "string \<Rightarrow> string" where
  "toLowerCase s = map lower_char s"

text \<open>
  A JavaScript \<open>Map\<close> keeps its entries in insertion order: \<open>set\<close> on a key that is
  present replaces the value in place, \<open>set\<close> on a new key appends.
\<close>

type_synonym ('k, 'v) js_map = "('k \<times> 'v) list"

definition Map_get :: "('k, 'v) js_map \<Rightarrow> 'k \<Rightarrow> 'v option" where
  "Map_get m k = map_of m k"

definition Map_has :: "('k, 'v) js_map \<Rightarrow> 'k \<Rightarrow> bool" where
  "Map_has m k = (map_of m k \<noteq> None)"

fun Map_set :: "'k \<Rightarrow> 'v \<Rightarrow> ('k, 'v) js_map \<Rightarrow> ('k, 'v) js_map" where
  "Map_set k v [] = [(k, v)]"
| "Map_set k v (p # ps) = (if fst p = k then (k, v) # ps else p # Map_set k v ps)"

definition Map_delete :: "'k \<Rightarrow> ('k, 'v) js_map \<Rightarrow> ('k, 'v) js_map" where
  "Map_delete k m = filter (\<lambda>p. fst p \<noteq> k) m"

section \<open>Adapter registry and fallback resolver (StorageManager)\<close>

text \<open>
  The registry sees an adapter through \<open>IStorageAdapter\<close> and calls nothing but
  \<open>isReady()\<close>. An adapter object is its reference together with the answer of its
  readiness check.
\<close>

record IStorageAdapter =
  adapter_ref :: nat
  isReady :: bool

record AdapterConfig =
  name :: string
  config :: js_value
  enabled :: "bool option"
  priority :: "int option"

record StorageManagerConfig =
  cfg_adapters :: "AdapterConfig list"
  cfg_defaultAdapter :: "string option"
  cfg_enableFallback :: "bool option"

type_synonym AdapterFactory = "js_value \<Rightarrow> error + IStorageAdapter"

record StorageManager =
  adapters :: "(string, IStorageAdapter) js_map"
  factories :: "(string, AdapterFactory) js_map"
  adapterConfigs :: "(string, AdapterConfig) js_map"
  defaultAdapter :: "string option"
  enableFallback :: bool

definition new_StorageManager :: "StorageManagerConfig option \<Rightarrow> StorageManager" where
  "new_StorageManager cfg =
     (case cfg of
        None \<Rightarrow>
          \<lparr>adapters = [], factories = [], adapterConfigs = [],
           defaultAdapter = None, enableFallback = False\<rparr>
      | Some c \<Rightarrow>
          \<lparr>adapters = [], factories = [],
           adapterConfigs = fold (\<lambda>adapterConfig m. Map_set (name adapterConfig) adapterConfig m)
                              (cfg_adapters c) [],
           defaultAdapter = cfg_defaultAdapter c,
           enableFallback = (case cfg_enableFallback c of None \<Rightarrow> False | Some b \<Rightarrow> b)\<rparr>)"

text \<open>A factory that throws is logged and leaves the adapter unregistered.\<close>

definition registerFactory :: "string \<Rightarrow> AdapterFactory \<Rightarrow> StorageManager \<Rightarrow> StorageManager" where
  "registerFactory nm factory m =
     (let m1 = m\<lparr>factories := Map_set (toLowerCase nm) factory (factories m)\<rparr> in
      case Map_get (adapterConfigs m1) (toLowerCase nm) of
        None \<Rightarrow> m1
      | Some c \<Rightarrow>
          if enabled c \<noteq> Some False then
            (case factory (config c) of
               Inr adapter \<Rightarrow> m1\<lparr>adapters := Map_set (toLowerCase nm) adapter (adapters m1)\<rparr>
             | Inl err \<Rightarrow> m1)
          else m1)"

definition registerAdapter :: "string \<Rightarrow> IStorageAdapter \<Rightarrow> StorageManager \<Rightarrow> StorageManager" where
  "registerAdapter nm adapter m = m\<lparr>adapters := Map_set (toLowerCase nm) adapter (adapters m)\<rparr>"

definition getAvailableAdapters :: "StorageManager \<Rightarrow> string list" where
  "getAvailableAdapters m = map fst (adapters m)"

definition getAdapter :: "string \<Rightarrow> StorageManager \<Rightarrow> error + IStorageAdapter" where
  "getAdapter nm m =
     (case Map_get (adapters m) (toLowerCase nm) of
        None \<Rightarrow> Inl (NotRegistered nm (map fst (adapters m)))
      | Some adapter \<Rightarrow>
          if \<not> isReady adapter then Inl (NotReady nm) else Inr adapter)"

definition hasAdapter :: "string \<Rightarrow> StorageManager \<Rightarrow> bool" where
  "hasAdapter nm m = Map_has (adapters m) (toLowerCase nm)"

definition isAdapterReady :: "string \<Rightarrow> StorageManager \<Rightarrow> bool" where
  "isAdapterReady nm m =
     (case Map_get (adapters m) (toLowerCase nm) of None \<Rightarrow> False | Some adapter \<Rightarrow> isReady adapter)"

definition setDefaultAdapter :: "string \<Rightarrow> StorageManager \<Rightarrow> error + StorageManager" where
  "setDefaultAdapter nm m =
     (if \<not> hasAdapter nm m then Inl (CannotSetDefault nm (getAvailableAdapters m))
      else Inr (m\<lparr>defaultAdapter := Some (toLowerCase nm)\<rparr>))"

definition setFallbackEnabled :: "bool \<Rightarrow> StorageManager \<Rightarrow> StorageManager" where
  "setFallbackEnabled b m = m\<lparr>enableFallback := b\<rparr>"

definition removeAdapter :: "string \<Rightarrow> StorageManager \<Rightarrow> StorageManager" where
  "removeAdapter nm m =
     (let m1 = m\<lparr>adapters := Map_delete (toLowerCase nm) (adapters m),
                 factories := Map_delete (toLowerCase nm) (factories m),
                 adapterConfigs := Map_delete (toLowerCase nm) (adapterConfigs m)\<rparr> in
      if defaultAdapter m1 = Some (toLowerCase nm) then m1\<lparr>defaultAdapter := None\<rparr> else m1)"

definition clear :: "StorageManager \<Rightarrow> StorageManager" where
  "clear m = m\<lparr>adapters := [], factories := [], adapterConfigs := [], defaultAdapter := None\<rparr>"

definition getReadyAdapters :: "StorageManager \<Rightarrow> string list" where
  "getReadyAdapters m = map fst (filter (\<lambda>entry. isReady (snd entry)) (adapters m))"

text \<open>
  \<open>Array.prototype.sort\<close> is stable, and the comparator \<open>priorityB - priorityA\<close> puts
  the higher priority first: a stable sort on the negated priority. The priority is read
  from \<open>adapterConfigs\<close> under the key the adapter is stored under.
\<close>

definition priority_of :: "StorageManager \<Rightarrow> string \<Rightarrow> int" where
  "priority_of m key =
     (case Map_get (adapterConfigs m) key of
        None \<Rightarrow> 0
      | Some c \<Rightarrow> (case priority c of None \<Rightarrow> 0 | Some p \<Rightarrow> p))"

definition getSortedAdapters :: "StorageManager \<Rightarrow> (string \<times> IStorageAdapter) list" where
  "getSortedAdapters m = sort_key (\<lambda>entry. - priority_of m (fst entry)) (adapters m)"

text \<open>
  The three blocks of \<open>getAdapterWithFallback\<close>. A block either leaves the function
  (with an adapter or with an error) or falls through to the next one. A name that is
  \<open>undefined\<close> or the empty string is falsy and skips its block.
\<close>

datatype 'a flow = Leave "error + 'a" | Fallthrough

definition try_named :: "string \<Rightarrow> StorageManager \<Rightarrow> IStorageAdapter option flow" where
  "try_named nm m =
     (case getAdapter nm m of
        Inr adapter \<Rightarrow> if isReady adapter then Leave (Inr (Some adapter)) else Fallthrough
      | Inl err \<Rightarrow> if \<not> enableFallback m then Leave (Inl err) else Fallthrough)"

definition name_given :: "string option \<Rightarrow> bool" where
  "name_given n = (case n of None \<Rightarrow> False | Some s \<Rightarrow> s \<noteq> [])"

definition try_preferred :: "string option \<Rightarrow> StorageManager \<Rightarrow> IStorageAdapter option flow" where
  "try_preferred preferredAdapter m =
     (if name_given preferredAdapter then try_named (the preferredAdapter) m else Fallthrough)"

definition try_default :: "string option \<Rightarrow> StorageManager \<Rightarrow> IStorageAdapter option flow" where
  "try_default preferredAdapter m =
     (if name_given (defaultAdapter m)
         \<and> (\<not> name_given preferredAdapter \<or> preferredAdapter \<noteq> defaultAdapter m)
      then try_named (the (defaultAdapter m)) m else Fallthrough)"

text \<open>The test of the scan loop on one \<open>[name, adapter]\<close> entry.\<close>

definition scan_candidate ::
  "string option \<Rightarrow> StorageManager \<Rightarrow> string \<times> IStorageAdapter \<Rightarrow> bool" where
  "scan_candidate preferredAdapter m entry =
     (isReady (snd entry) \<and> Some (fst entry) \<noteq> preferredAdapter
        \<and> Some (fst entry) \<noteq> defaultAdapter m)"

definition scan_fallback :: "string option \<Rightarrow> StorageManager \<Rightarrow> IStorageAdapter option" where
  "scan_fallback preferredAdapter m =
     (if enableFallback m then
        map_option snd (find (scan_candidate preferredAdapter m) (getSortedAdapters m))
      else None)"

definition getAdapterWithFallback ::
  "string option \<Rightarrow> StorageManager \<Rightarrow> error + IStorageAdapter option" where
  "getAdapterWithFallback preferredAdapter m =
     (case try_preferred preferredAdapter m of
        Leave r \<Rightarrow> r
      | Fallthrough \<Rightarrow>
          (case try_default preferredAdapter m of
             Leave r \<Rightarrow> r
           | Fallthrough \<Rightarrow> Inr (scan_fallback preferredAdapter m)))"

text \<open>Without a default name the first stored adapter is returned, ready or not.\<close>

definition getDefaultAdapter :: "StorageManager \<Rightarrow> error + IStorageAdapter" where
  "getDefaultAdapter m =
     (if \<not> name_given (defaultAdapter m) then
        (case adapters m of
           entry # rest \<Rightarrow> Inr (snd entry)
         | [] \<Rightarrow> Inl (NoDefaultAdapter (map fst (adapters m))))
      else getAdapter (the (defaultAdapter m)) m)"

section \<open>Notification bus (StorageEventEmitter)\<close>

datatype StorageEvent =
    BEFORE_UPLOAD | AFTER_UPLOAD_SUCCESS | UPLOAD_FAILED
  | BEFORE_DOWNLOAD | AFTER_DOWNLOAD_SUCCESS | DOWNLOAD_FAILED
  | BEFORE_DELETE | AFTER_DELETE_SUCCESS | DELETE_FAILED
  | BEFORE_GET | AFTER_GET_SUCCESS | GET_FAILED
  | BEFORE_LIST | AFTER_LIST_SUCCESS | LIST_FAILED
  | BEFORE_EXISTS | AFTER_EXISTS_SUCCESS | EXISTS_FAILED

record StorageFile =
  filename :: string
  file_size :: int
  mimeType :: string
  content :: string

text \<open>
  The arguments of the six operations. An options argument that is left out is
  \<open>undefined\<close>.
\<close>

datatype request =
    UploadRequest StorageFile js_value
  | DownloadRequest string js_value
  | DeleteRequest string js_value
  | GetRequest string
  | ListRequest js_value
  | ExistsRequest string

datatype response = Response (success: bool) (body: js_value)

record event_data =
  adapterName :: string
  timestamp :: int
  correlationId :: js_value
  subject :: request
  response :: "response option"
  error :: "error option"
  duration :: "int option"

text \<open>
  A listener is a function object: its reference decides membership in a \<open>Set\<close>, its
  body decides what a call does. A call returns (or resolves), throws before returning, or
  returns a promise that is rejected. What a listener does to the bus while it runs is not
  modelled.
\<close>

datatype listener_result = Returns | Throws error | Rejects error

datatype listener = Listener (listener_ref: nat) (run: "event_data \<Rightarrow> listener_result")

definition Set_add :: "listener \<Rightarrow> listener list \<Rightarrow> listener list" where
  "Set_add l s = (if listener_ref l \<in> listener_ref ` set s then s else s @ [l])"

definition Set_delete :: "listener \<Rightarrow> listener list \<Rightarrow> listener list" where
  "Set_delete l s = filter (\<lambda>x. listener_ref x \<noteq> listener_ref l) s"

text \<open>
  The \<open>Set\<close> objects live in a store, because an unsubscribe closure keeps the \<open>Set\<close>
  it was created with, whatever the \<open>Map\<close> holds later.
\<close>

record StorageEventEmitter =
  set_store :: "nat \<Rightarrow> listener list"
  listeners :: "(StorageEvent, nat) js_map"
  next_set :: nat

definition new_StorageEventEmitter :: StorageEventEmitter where
  "new_StorageEventEmitter = \<lparr>set_store = (\<lambda>a. []), listeners = [], next_set = 0\<rparr>"

text \<open>The closure returned by \<open>on\<close>: the event key, the captured \<open>Set\<close>, the listener.\<close>

datatype unsubscribe = Unsubscribe StorageEvent nat listener

definition on :: "StorageEvent \<Rightarrow> listener \<Rightarrow> StorageEventEmitter \<Rightarrow> unsubscribe \<times> StorageEventEmitter" where
  "on event l em =
     (let em1 = (if \<not> Map_has (listeners em) event
                 then em\<lparr>set_store := (set_store em)(next_set em := []),
                         listeners := Map_set event (next_set em) (listeners em),
                         next_set := Suc (next_set em)\<rparr>
                 else em);
          a = the (Map_get (listeners em1) event);
          em2 = em1\<lparr>set_store := (set_store em1)(a := Set_add l (set_store em1 a))\<rparr>
      in (Unsubscribe event a l, em2))"

fun call_unsubscribe :: "unsubscribe \<Rightarrow> StorageEventEmitter \<Rightarrow> StorageEventEmitter" where
  "call_unsubscribe (Unsubscribe event a l) em =
     (let em1 = em\<lparr>set_store := (set_store em)(a := Set_delete l (set_store em a))\<rparr> in
      if length (set_store em1 a) = 0
      then em1\<lparr>listeners := Map_delete event (listeners em1)\<rparr>
      else em1)"

definition off :: "StorageEvent \<Rightarrow> listener \<Rightarrow> StorageEventEmitter \<Rightarrow> StorageEventEmitter" where
  "off event l em =
     (case Map_get (listeners em) event of
        None \<Rightarrow> em
      | Some a \<Rightarrow>
          (let em1 = em\<lparr>set_store := (set_store em)(a := Set_delete l (set_store em a))\<rparr> in
           if length (set_store em1 a) = 0
           then em1\<lparr>listeners := Map_delete event (listeners em1)\<rparr>
           else em1))"

definition removeAllListeners :: "StorageEvent option \<Rightarrow> StorageEventEmitter \<Rightarrow> StorageEventEmitter" where
  "removeAllListeners event em =
     (case event of
        Some ev \<Rightarrow> em\<lparr>listeners := Map_delete ev (listeners em)\<rparr>
      | None \<Rightarrow> em\<lparr>listeners := []\<rparr>)"

definition listenerCount :: "StorageEvent \<Rightarrow> StorageEventEmitter \<Rightarrow> nat" where
  "listenerCount event em =
     (case Map_get (listeners em) event of None \<Rightarrow> 0 | Some a \<Rightarrow> length (set_store em a))"

definition eventNames :: "StorageEventEmitter \<Rightarrow> StorageEvent list" where
  "eventNames em = map fst (listeners em)"

definition hasListeners :: "StorageEvent \<Rightarrow> StorageEventEmitter \<Rightarrow> bool" where
  "hasListeners event em =
     (case Map_get (listeners em) event of None \<Rightarrow> False | Some a \<Rightarrow> length (set_store em a) > 0)"

text \<open>The listeners a publish of the event reaches, in the order of the \<open>Set\<close>.\<close>

definition registered :: "StorageEventEmitter \<Rightarrow> StorageEvent \<Rightarrow> listener list" where
  "registered em event =
     (case Map_get (listeners em) event of None \<Rightarrow> [] | Some a \<Rightarrow> set_store em a)"

section \<open>The world an operation runs in\<close>

text \<open>
  The clock and the identifier generator belong to the environment: \<open>clock w n\<close> is what
  the \<open>n\<close>-th reading of the time returns, \<open>uuids w n\<close> what the \<open>n\<close>-th call of
  \<open>uuidv4()\<close> returns. The trace records, in order, every call of \<open>emit\<close> and every call
  of the concrete backend; \<open>console\<close> holds what \<open>emit\<close> logs.
\<close>

datatype effect = Emitted StorageEvent event_data | Performed request

record world =
  clock :: "nat \<Rightarrow> int"
  reads :: nat
  uuids :: "nat \<Rightarrow> string"
  minted :: nat
  trace :: "effect list"
  console :: "(StorageEvent \<times> error) list"

text \<open>\<open>Date.now()\<close> and \<open>new Date()\<close> both read the clock once.\<close>

definition Date_now :: "world \<Rightarrow> int \<times> world" where
  "Date_now w = (clock w (reads w), w\<lparr>reads := Suc (reads w)\<rparr>)"

definition uuidv4 :: "world \<Rightarrow> string \<times> world" where
  "uuidv4 w = (uuids w (minted w), w\<lparr>minted := Suc (minted w)\<rparr>)"

text \<open>
  \<open>Promise.all\<close> over promises that are settled when they are created: rejected with
  the reason of the first rejected one, resolved when there is none.
\<close>

fun Promise_all :: "listener_result list \<Rightarrow> error + unit" where
  "Promise_all [] = Inr ()"
| "Promise_all (Rejects e # rs) = Inl e"
| "Promise_all (r # rs) = Promise_all rs"

definition emit ::
  "StorageEventEmitter \<Rightarrow> StorageEvent \<Rightarrow> event_data \<Rightarrow> world \<Rightarrow> (error + unit) \<times> world" where
  "emit em event data w =
     (let w1 = w\<lparr>trace := trace w @ [Emitted event data]\<rparr> in
      case Map_get (listeners em) event of
        None \<Rightarrow> (Inr (), w1)
      | Some a \<Rightarrow>
          if length (set_store em a) = 0 then (Inr (), w1)
          else
            (let results = map (\<lambda>l. run l data) (set_store em a) in
             (Promise_all results,
              w1\<lparr>console := console w1 @ [(event, e). Throws e \<leftarrow> results]\<rparr>)))"

section \<open>Operation envelope (BaseStorageAdapter)\<close>

text \<open>
  \<open>perform\<close> stands for the six abstract \<open>performUpload\<close>, ..., \<open>performExists\<close> of
  the concrete subclass: it returns the response or throws.
\<close>

record BaseStorageAdapter =
  adapter_config :: js_value
  providerName :: string
  eventEmitter :: StorageEventEmitter
  perform :: "request \<Rightarrow> error + response"

definition BaseStorageAdapter_isReady :: "BaseStorageAdapter \<Rightarrow> bool" where
  "BaseStorageAdapter_isReady ad = truthy (adapter_config ad)"

text \<open>
  The six methods have one body. Its \<open>try\<close> block and its \<open>catch\<close> block are the two
  definitions below; \<open>with_hooks\<close> reads the start time and joins them.
\<close>

definition try_block ::
  "BaseStorageAdapter \<Rightarrow> StorageEvent \<Rightarrow> StorageEvent \<Rightarrow> request \<Rightarrow> js_value \<Rightarrow> int \<Rightarrow> world
     \<Rightarrow> (error + response) \<times> world" where
  "try_block ad before_event success_event req cid startTime w =
     (let (ts, w1) = Date_now w;
          (r1, w2) = emit (eventEmitter ad) before_event
                       \<lparr>adapterName = providerName ad, timestamp = ts, correlationId = cid,
                        subject = req, response = None, error = None, duration = None\<rparr> w1
      in case r1 of
           Inl e \<Rightarrow> (Inl e, w2)
         | Inr u \<Rightarrow>
             (let w3 = w2\<lparr>trace := trace w2 @ [Performed req]\<rparr> in
              case perform ad req of
                Inl e \<Rightarrow> (Inl e, w3)
              | Inr resp \<Rightarrow>
                  (let (now, w4) = Date_now w3;
                       (ts2, w5) = Date_now w4;
                       (r2, w6) = emit (eventEmitter ad) success_event
                                    \<lparr>adapterName = providerName ad, timestamp = ts2,
                                     correlationId = cid, subject = req, response = Some resp,
                                     error = None, duration = Some (now - startTime)\<rparr> w5
                   in case r2 of
                        Inl e \<Rightarrow> (Inl e, w6)
                      | Inr u2 \<Rightarrow> (Inr resp, w6))))"

definition catch_block ::
  "BaseStorageAdapter \<Rightarrow> StorageEvent \<Rightarrow> request \<Rightarrow> js_value \<Rightarrow> int \<Rightarrow> error \<Rightarrow> world
     \<Rightarrow> (error + response) \<times> world" where
  "catch_block ad failed_event req cid startTime err w =
     (let (now, w1) = Date_now w;
          (ts, w2) = Date_now w1;
          (r, w3) = emit (eventEmitter ad) failed_event
                      \<lparr>adapterName = providerName ad, timestamp = ts, correlationId = cid,
                       subject = req, response = None, error = Some err,
                       duration = Some (now - startTime)\<rparr> w2
      in case r of
           Inl e \<Rightarrow> (Inl e, w3)
         | Inr u \<Rightarrow> (Inl err, w3))"

definition with_hooks ::
  "BaseStorageAdapter \<Rightarrow> StorageEvent \<Rightarrow> StorageEvent \<Rightarrow> StorageEvent \<Rightarrow> request \<Rightarrow> js_value
     \<Rightarrow> world \<Rightarrow> (error + response) \<times> world" where
  "with_hooks ad before_event success_event failed_event req cid w =
     (let (startTime, w1) = Date_now w;
          (r, w2) = try_block ad before_event success_event req cid startTime w1
      in case r of
           Inr resp \<Rightarrow> (Inr resp, w2)
         | Inl err \<Rightarrow> catch_block ad failed_event req cid startTime err w2)"

text \<open>\<open>uuidv4()\<close> as a correlation id.\<close>

definition mint :: "world \<Rightarrow> js_value \<times> world" where
  "mint w = (let (u, w1) = uuidv4 w in (JStr u, w1))"

definition upload ::
  "BaseStorageAdapter \<Rightarrow> StorageFile \<Rightarrow> js_value \<Rightarrow> world \<Rightarrow> (error + response) \<times> world" where
  "upload ad file options w =
     (let given = opt_get (opt_get options ''metadata'') ''correlationId'';
          (cid, w1) = (if truthy given then (given, w) else mint w)
      in with_hooks ad BEFORE_UPLOAD AFTER_UPLOAD_SUCCESS UPLOAD_FAILED
           (UploadRequest file options) cid w1)"

definition download ::
  "BaseStorageAdapter \<Rightarrow> string \<Rightarrow> js_value \<Rightarrow> world \<Rightarrow> (error + response) \<times> world" where
  "download ad key options w =
     (let (cid, w1) = mint w
      in with_hooks ad BEFORE_DOWNLOAD AFTER_DOWNLOAD_SUCCESS DOWNLOAD_FAILED
           (DownloadRequest key options) cid w1)"

definition delete ::
  "BaseStorageAdapter \<Rightarrow> string \<Rightarrow> js_value \<Rightarrow> world \<Rightarrow> (error + response) \<times> world" where
  "delete ad key options w =
     (let (cid, w1) = mint w
      in with_hooks ad BEFORE_DELETE AFTER_DELETE_SUCCESS DELETE_FAILED
           (DeleteRequest key options) cid w1)"

definition get ::
  "BaseStorageAdapter \<Rightarrow> string \<Rightarrow> world \<Rightarrow> (error + response) \<times> world" where
  "get ad key w =
     (let (cid, w1) = mint w
      in with_hooks ad BEFORE_GET AFTER_GET_SUCCESS GET_FAILED (GetRequest key) cid w1)"

definition list ::
  "BaseStorageAdapter \<Rightarrow> js_value \<Rightarrow> world \<Rightarrow> (error + response) \<times> world" where
  "list ad options w =
     (let (cid, w1) = mint w
      in with_hooks ad BEFORE_LIST AFTER_LIST_SUCCESS LIST_FAILED (ListRequest options) cid w1)"

definition exists ::
  "BaseStorageAdapter \<Rightarrow> string \<Rightarrow> world \<Rightarrow> (error + response) \<times> world" where
  "exists ad key w =
     (let (cid, w1) = mint w
      in with_hooks ad BEFORE_EXISTS AFTER_EXISTS_SUCCESS EXISTS_FAILED (ExistsRequest key) cid w1)"

text \<open>One call of any of the six methods, named by its arguments.\<close>

fun invoke :: "BaseStorageAdapter \<Rightarrow> request \<Rightarrow> world \<Rightarrow> (error + response) \<times> world" where
  "invoke ad (UploadRequest file options) w = upload ad file options w"
| "invoke ad (DownloadRequest key options) w = download ad key options w"
| "invoke ad (DeleteRequest key options) w = delete ad key options w"
| "invoke ad (GetRequest key) w = get ad key w"
| "invoke ad (ListRequest options) w = list ad options w"
| "invoke ad (ExistsRequest key) w = exists ad key w"

text \<open>The three event kinds of each operation.\<close>

fun before_kind :: "request \<Rightarrow> StorageEvent" where
  "before_kind (UploadRequest file options) = BEFORE_UPLOAD"
| "before_kind (DownloadRequest key options) = BEFORE_DOWNLOAD"
| "before_kind (DeleteRequest key options) = BEFORE_DELETE"
| "before_kind (GetRequest key) = BEFORE_GET"
| "before_kind (ListRequest options) = BEFORE_LIST"
| "before_kind (ExistsRequest key) = BEFORE_EXISTS"

fun success_kind :: "request \<Rightarrow> StorageEvent" where
  "success_kind (UploadRequest file options) = AFTER_UPLOAD_SUCCESS"
| "success_kind (DownloadRequest key options) = AFTER_DOWNLOAD_SUCCESS"
| "success_kind (DeleteRequest key options) = AFTER_DELETE_SUCCESS"
| "success_kind (GetRequest key) = AFTER_GET_SUCCESS"
| "success_kind (ListRequest options) = AFTER_LIST_SUCCESS"
| "success_kind (ExistsRequest key) = AFTER_EXISTS_SUCCESS"

fun failed_kind :: "request \<Rightarrow> StorageEvent" where
  "failed_kind (UploadRequest file options) = UPLOAD_FAILED"
| "failed_kind (DownloadRequest key options) = DOWNLOAD_FAILED"
| "failed_kind (DeleteRequest key options) = DELETE_FAILED"
| "failed_kind (GetRequest key) = GET_FAILED"
| "failed_kind (ListRequest options) = LIST_FAILED"
| "failed_kind (ExistsRequest key) = EXISTS_FAILED"

text \<open>
  What a caller puts under \<open>metadata.correlationId\<close> of the options argument, for the
  operations that take one.
\<close>

fun supplied_id :: "request \<Rightarrow> js_value" where
  "supplied_id (UploadRequest file options) = opt_get (opt_get options ''metadata'') ''correlationId''"
| "supplied_id (DownloadRequest key options) = opt_get (opt_get options ''metadata'') ''correlationId''"
| "supplied_id (DeleteRequest key options) = opt_get (opt_get options ''metadata'') ''correlationId''"
| "supplied_id (ListRequest options) = opt_get (opt_get options ''metadata'') ''correlationId''"
| "supplied_id (GetRequest key) = JUndefined"
| "supplied_id (ExistsRequest key) = JUndefined"

fun is_upload :: "request \<Rightarrow> bool" where
  "is_upload (UploadRequest file options) = True"
| "is_upload req = False"

text \<open>
  The record a call publishes its pre-event with: the id the call carries, and the second
  reading of the clock (the first is the start time).
\<close>

definition pre_event :: "BaseStorageAdapter \<Rightarrow> request \<Rightarrow> world \<Rightarrow> event_data" where
  "pre_event ad req w =
     \<lparr>adapterName = providerName ad, timestamp = clock w (Suc (reads w)),
      correlationId = (if is_upload req \<and> truthy (supplied_id req) then supplied_id req
                       else JStr (uuids w (minted w))),
      subject = req, response = None, error = None, duration = None\<rparr>"

text \<open>The effects one call adds to the trace, and the correlation ids of its events.\<close>

definition effects_of :: "BaseStorageAdapter \<Rightarrow> request \<Rightarrow> world \<Rightarrow> effect list" where
  "effects_of ad req w = drop (length (trace w)) (trace (snd (invoke ad req w)))"

fun event_ids :: "effect list \<Rightarrow> js_value list" where
  "event_ids [] = []"
| "event_ids (Emitted k d # es) = correlationId d # event_ids es"
| "event_ids (Performed r # es) = event_ids es"

text \<open>The events among some effects, each as its kind and its correlation id.\<close>

fun event_tags :: "effect list \<Rightarrow> (StorageEvent \<times> js_value) list" where
  "event_tags [] = []"
| "event_tags (Emitted k d # es) = (k, correlationId d) # event_tags es"
| "event_tags (Performed r # es) = event_tags es"

section \<open>Concrete registries and buses used below\<close>

text \<open>
  Two adapters of priority 2, registered as \<open>B\<close> then \<open>A\<close>, with fallback enabled and a
  default name that is not registered.
\<close>

definition B_then_A :: StorageManager where
  "B_then_A =
     registerAdapter ''A'' \<lparr>adapter_ref = 2, isReady = True\<rparr>
       (registerAdapter ''B'' \<lparr>adapter_ref = 1, isReady = True\<rparr>
         (new_StorageManager (Some
            \<lparr>cfg_adapters = [\<lparr>name = ''a'', config = JObj [], enabled = None, priority = Some 2\<rparr>,
                             \<lparr>name = ''b'', config = JObj [], enabled = None, priority = Some 2\<rparr>],
             cfg_defaultAdapter = Some ''main'',
             cfg_enableFallback = Some True\<rparr>)))"

text \<open>Fallback disabled, one adapter not ready, the default name not registered.\<close>

definition two_backends :: StorageManager where
  "two_backends =
     \<lparr>adapters = [(''s3'', \<lparr>adapter_ref = 1, isReady = False\<rparr>),
                  (''local'', \<lparr>adapter_ref = 2, isReady = True\<rparr>)],
      factories = [], adapterConfigs = [], defaultAdapter = Some ''azure'',
      enableFallback = False\<rparr>"

text \<open>A registry constructed with one enabled configuration record of the given name.\<close>

definition s3_factory :: AdapterFactory where
  "s3_factory cfg = Inr \<lparr>adapter_ref = 1, isReady = True\<rparr>"

definition configured_as :: "string \<Rightarrow> StorageManager" where
  "configured_as nm =
     new_StorageManager (Some
       \<lparr>cfg_adapters = [\<lparr>name = nm, config = JObj [], enabled = Some True, priority = Some 1\<rparr>],
        cfg_defaultAdapter = None, cfg_enableFallback = None\<rparr>)"

text \<open>
  A bus on which a listener is subscribed, all listeners of the event are removed, a second
  listener is subscribed to the same event, and the first handle is called: the bus before
  and after that call.
\<close>

definition L1 :: listener where "L1 = Listener 1 (\<lambda>d. Returns)"
definition L2 :: listener where "L2 = Listener 2 (\<lambda>d. Returns)"

definition stale_unsubscribe :: "StorageEventEmitter \<times> StorageEventEmitter" where
  "stale_unsubscribe =
     (let (h1, em1) = on BEFORE_UPLOAD L1 new_StorageEventEmitter;
          em2 = removeAllListeners (Some BEFORE_UPLOAD) em1;
          (h2, em3) = on BEFORE_UPLOAD L2 em2;
          em4 = call_unsubscribe h1 em3
      in (em3, em4))"

text \<open>
  A clock that advances five milliseconds per reading, an identifier generator that never
  repeats itself, backends that always succeed or always fail, and an adapter whose bus has
  one listener, on the given event, with the given behaviour.
\<close>

definition ticking_world :: world where
  "ticking_world =
     \<lparr>clock = (\<lambda>n. 1000 + 5 * int n), reads = 0,
      uuids = (\<lambda>n. ''uuid-'' @ replicate n (CHR ''x'')), minted = 0,
      trace = [], console = []\<rparr>"

definition ok_backend :: "request \<Rightarrow> error + response" where
  "ok_backend req = Inr (Response True (JStr ''stored''))"

definition failing_backend :: "request \<Rightarrow> error + response" where
  "failing_backend req = Inl (Error ''disk full'')"

definition adapter_with ::
  "StorageEvent \<Rightarrow> listener_result \<Rightarrow> (request \<Rightarrow> error + response) \<Rightarrow> BaseStorageAdapter" where
  "adapter_with ev res backend =
     \<lparr>adapter_config = JObj [], providerName = ''local'',
      eventEmitter = snd (on ev (Listener 1 (\<lambda>d. res)) new_StorageEventEmitter),
      perform = backend\<rparr>"

definition large_file :: StorageFile where
  "large_file =
     \<lparr>filename = ''large-file.txt'', file_size = 6291456, mimeType = ''text/plain'',
      content = ''...''\<rparr>"

definition traced_options :: js_value where
  "traced_options = JObj [(''metadata'', JObj [(''correlationId'', JStr ''user-123-upload-456'')])]"

text \<open>The same adapter with a second listener, on a second event.\<close>

definition adapter_with2 ::
  "StorageEvent \<Rightarrow> listener_result \<Rightarrow> StorageEvent \<Rightarrow> listener_result
     \<Rightarrow> (request \<Rightarrow> error + response) \<Rightarrow> BaseStorageAdapter" where
  "adapter_with2 ev1 res1 ev2 res2 backend =
     \<lparr>adapter_config = JObj [], providerName = ''local'',
      eventEmitter =
        snd (on ev2 (Listener 2 (\<lambda>d. res2))
               (snd (on ev1 (Listener 1 (\<lambda>d. res1)) new_StorageEventEmitter))),
      perform = backend\<rparr>"

text \<open>
  A registry constructed with two configuration records, of priority 9 under the given
  name and of priority 1 under \<open>low\<close>, with fallback enabled and a default name that is
  not registered; then adapter 1 is registered as \<open>low\<close> and adapter 2 under the given
  name.
\<close>

definition priorities_as :: "string \<Rightarrow> StorageManager" where
  "priorities_as nm =
     registerAdapter nm \<lparr>adapter_ref = 2, isReady = True\<rparr>
       (registerAdapter ''low'' \<lparr>adapter_ref = 1, isReady = True\<rparr>
         (new_StorageManager (Some
            \<lparr>cfg_adapters = [\<lparr>name = nm, config = JObj [], enabled = None, priority = Some 9\<rparr>,
                             \<lparr>name = ''low'', config = JObj [], enabled = None, priority = Some 1\<rparr>],
             cfg_defaultAdapter = Some ''main'',
             cfg_enableFallback = Some True\<rparr>)))"

section \<open>Resolution by name\<close>

lemma getAdapter_error_is_configuration:
  "getAdapter nm m = Inl e \<Longrightarrow> is_configuration_error e"
  by (auto simp: getAdapter_def split: option.splits if_splits)

lemma getAdapter_returns_ready:
  "getAdapter nm m = Inr a \<Longrightarrow> isReady a \<and> Map_get (adapters m) (toLowerCase nm) = Some a"
  by (auto simp: getAdapter_def split: option.splits if_splits)

text \<open>
  C7. \<open>getAdapter\<close> raises the not-registered configuration error when no instance is
  stored under the (lower-cased) name, raises the not-ready configuration error when the
  stored instance's readiness check is false, and otherwise returns the stored instance
  itself.
\<close>

theorem getAdapter_resolves:
  "(toLowerCase nm \<notin> fst ` set (adapters m) \<longrightarrow>
      getAdapter nm m = Inl (NotRegistered nm (getAvailableAdapters m))
      \<and> is_configuration_error (NotRegistered nm (getAvailableAdapters m)))
   \<and> (\<forall>a. Map_get (adapters m) (toLowerCase nm) = Some a \<longrightarrow>
          (\<not> isReady a \<longrightarrow>
             getAdapter nm m = Inl (NotReady nm) \<and> is_configuration_error (NotReady nm))
          \<and> (isReady a \<longrightarrow> getAdapter nm m = Inr a))"
proof (intro conjI impI allI)
  assume "toLowerCase nm \<notin> fst ` set (adapters m)"
  then have "map_of (adapters m) (toLowerCase nm) = None"
    by (simp add: map_of_eq_None_iff)
  then show "getAdapter nm m = Inl (NotRegistered nm (getAvailableAdapters m))"
    by (simp add: getAdapter_def Map_get_def getAvailableAdapters_def)
qed (simp_all add: getAdapter_def)

theorem getAdapter_resolves_witness:
  "getAdapter ''S3'' \<lparr>adapters = [(''s3'', \<lparr>adapter_ref = 7, isReady = True\<rparr>),
                                   (''local'', \<lparr>adapter_ref = 8, isReady = False\<rparr>)],
                       factories = [], adapterConfigs = [], defaultAdapter = None,
                       enableFallback = False\<rparr>
     = Inr \<lparr>adapter_ref = 7, isReady = True\<rparr>
   \<and> getAdapter ''Local'' \<lparr>adapters = [(''s3'', \<lparr>adapter_ref = 7, isReady = True\<rparr>),
                                   (''local'', \<lparr>adapter_ref = 8, isReady = False\<rparr>)],
                       factories = [], adapterConfigs = [], defaultAdapter = None,
                       enableFallback = False\<rparr>
     = Inl (NotReady ''Local'')
   \<and> getAdapter ''azure'' \<lparr>adapters = [(''s3'', \<lparr>adapter_ref = 7, isReady = True\<rparr>),
                                   (''local'', \<lparr>adapter_ref = 8, isReady = False\<rparr>)],
                       factories = [], adapterConfigs = [], defaultAdapter = None,
                       enableFallback = False\<rparr>
     = Inl (NotRegistered ''azure'' [''s3'', ''local''])"
  using
    getAdapter_resolves [of "''S3''" "\<lparr>adapters = [(''s3'', \<lparr>adapter_ref = 7, isReady = True\<rparr>),
                                   (''local'', \<lparr>adapter_ref = 8, isReady = False\<rparr>)],
                       factories = [], adapterConfigs = [], defaultAdapter = None,
                       enableFallback = False\<rparr>"]
    getAdapter_resolves [of "''Local''" "\<lparr>adapters = [(''s3'', \<lparr>adapter_ref = 7, isReady = True\<rparr>),
                                   (''local'', \<lparr>adapter_ref = 8, isReady = False\<rparr>)],
                       factories = [], adapterConfigs = [], defaultAdapter = None,
                       enableFallback = False\<rparr>"]
    getAdapter_resolves [of "''azure''" "\<lparr>adapters = [(''s3'', \<lparr>adapter_ref = 7, isReady = True\<rparr>),
                                   (''local'', \<lparr>adapter_ref = 8, isReady = False\<rparr>)],
                       factories = [], adapterConfigs = [], defaultAdapter = None,
                       enableFallback = False\<rparr>"]
  by (simp add: toLowerCase_def lower_char_def Map_get_def getAvailableAdapters_def)

section \<open>Fallback resolution\<close>

lemmas registry_defs =
  registerAdapter_def registerFactory_def new_StorageManager_def toLowerCase_def lower_char_def
  getAdapterWithFallback_def try_preferred_def try_default_def try_named_def name_given_def
  getAdapter_def Map_get_def Map_has_def hasAdapter_def
  scan_fallback_def scan_candidate_def getSortedAdapters_def priority_of_def

subsection \<open>The first match in a stably sorted list\<close>

lemma find_filter_conj: "find P (filter Q xs) = find (\<lambda>x. Q x \<and> P x) xs"
  by (induction xs) auto

lemma find_Some_refine:
  "find P xs = Some x \<Longrightarrow> Q x \<Longrightarrow> find (\<lambda>y. Q y \<and> P y) xs = Some x"
  by (induction xs) (auto split: if_splits)

lemma find_sorted_least:
  "sorted (map f ys) \<Longrightarrow> find P ys = Some x \<Longrightarrow> y \<in> set ys \<Longrightarrow> P y \<Longrightarrow> f x \<le> f y"
proof (induction ys)
  case Nil
  then show ?case by simp
next
  case (Cons z zs)
  show ?case
  proof (cases "P z")
    case True
    with Cons.prems have "x = z" by simp
    with Cons.prems show ?thesis by auto
  next
    case False
    with Cons.prems have "find P zs = Some x" "y \<in> set zs" "sorted (map f zs)" by auto
    then show ?thesis using Cons.IH Cons.prems(4) by blast
  qed
qed

lemma find_sort_key_least:
  assumes "find P (sort_key f xs) = Some x" "y \<in> set xs" "P y"
  shows "f x \<le> f y"
  using find_sorted_least [of f "sort_key f xs" P x y] assms by simp

lemma find_sort_key_mem:
  assumes "find P (sort_key f xs) = Some x"
  shows "x \<in> set xs \<and> P x"
  using assms by (metis find_Some_iff nth_mem set_sort)

text \<open>Among the entries of equal key the sort keeps the order of the input.\<close>

lemma find_sort_key_first:
  assumes "find P (sort_key f xs) = Some x"
  shows "find (\<lambda>y. f y = f x \<and> P y) xs = Some x"
proof -
  have "find (\<lambda>y. f y = f x \<and> P y) (sort_key f xs) = Some x"
    using assms by (rule find_Some_refine) simp
  then have "find P (filter (\<lambda>y. f y = f x) (sort_key f xs)) = Some x"
    by (simp add: find_filter_conj)
  then have "find P (filter (\<lambda>y. f y = f x) xs) = Some x"
    by (simp add: sort_key_stable)
  then show ?thesis by (simp add: find_filter_conj)
qed

subsection \<open>The scan\<close>

lemma fallback_reaches_scan:
  assumes "enableFallback m"
    and "getAdapter p m = Inl e1"
    and "defaultAdapter m = Some d"
    and "getAdapter d m = Inl e2"
  shows "getAdapterWithFallback (Some p) m = Inr (scan_fallback (Some p) m)"
  using assms
  by (simp add: getAdapterWithFallback_def try_preferred_def try_default_def try_named_def)

text \<open>A name that was not stored before is appended: the \<open>Map\<close> lists first registrations in order.\<close>

lemma Map_set_new_key:
  "k \<notin> fst ` set ps \<Longrightarrow> Map_set k v ps = ps @ [(k, v)]"
  by (induction ps) auto

lemma registerAdapter_appends:
  "toLowerCase nm \<notin> fst ` set (adapters m) \<Longrightarrow>
     adapters (registerAdapter nm a m) = adapters m @ [(toLowerCase nm, a)]"
  by (simp add: registerAdapter_def Map_set_new_key)

text \<open>
  What the scan computes on any registry, in terms of the priority it finds in
  \<open>adapterConfigs\<close> under the key an adapter is stored under (\<open>priority_of\<close>): with
  fallback enabled and failing steps for the preferred and the default name, the result is
  null exactly when no stored adapter is ready under another name; otherwise it is ready,
  stored under another name, of the highest such priority, and the first of that priority
  in the order of the \<open>adapters\<close> \<open>Map\<close>.
\<close>

lemma scan_orders_by_stored_priority:
  assumes "enableFallback m"
    and "getAdapter p m = Inl e1"
    and "defaultAdapter m = Some d"
    and "getAdapter d m = Inl e2"
  shows "case getAdapterWithFallback (Some p) m of
           Inl e \<Rightarrow> False
         | Inr None \<Rightarrow> \<forall>entry\<in>set (adapters m). \<not> scan_candidate (Some p) m entry
         | Inr (Some a) \<Rightarrow>
             \<exists>n. (n, a) \<in> set (adapters m) \<and> isReady a \<and> n \<noteq> p \<and> n \<noteq> d
               \<and> (\<forall>entry\<in>set (adapters m). scan_candidate (Some p) m entry \<longrightarrow>
                     priority_of m (fst entry) \<le> priority_of m n)
               \<and> find (\<lambda>entry. priority_of m (fst entry) = priority_of m n
                                 \<and> scan_candidate (Some p) m entry) (adapters m)
                   = Some (n, a)"
proof -
  let ?P = "scan_candidate (Some p) m"
  let ?f = "\<lambda>entry. - priority_of m (fst entry)"
  have res: "getAdapterWithFallback (Some p) m
               = Inr (map_option snd (find ?P (sort_key ?f (adapters m))))"
    using fallback_reaches_scan [OF assms] assms(1)
    by (simp add: scan_fallback_def getSortedAdapters_def)
  show ?thesis
  proof (cases "find ?P (sort_key ?f (adapters m))")
    case None
    then have "\<forall>entry\<in>set (adapters m). \<not> ?P entry"
      by (auto simp: find_None_iff)
    with None res show ?thesis by simp
  next
    case (Some entry)
    obtain n a where entry: "entry = (n, a)" by (cases entry)
    from Some have mem: "entry \<in> set (adapters m)" "?P entry"
      using find_sort_key_mem [of ?P ?f "adapters m" entry] by simp_all
    have least: "\<forall>y\<in>set (adapters m). ?P y \<longrightarrow> priority_of m (fst y) \<le> priority_of m n"
      using find_sort_key_least [OF Some] entry by fastforce
    have first: "find (\<lambda>y. priority_of m (fst y) = priority_of m n \<and> ?P y) (adapters m)
                   = Some (n, a)"
      using find_sort_key_first [OF Some] entry by simp
    from mem entry assms(3) have "isReady a" "n \<noteq> p" "n \<noteq> d"
      by (auto simp: scan_candidate_def)
    with mem entry least first res Some show ?thesis by auto
  qed
qed

text \<open>
  C5. The scan does not follow the configured priorities when a configuration record is
  written with an upper-case letter. With records \<open>UP\<close> (priority 9) and \<open>low\<close>
  (priority 1), fallback enabled, a preferred and a default name that are not registered,
  and both adapters registered and ready, the scan returns the adapter of priority 1: the
  record \<open>UP\<close> is looked up as \<open>up\<close>, is not found and counts as zero. With the same
  record written \<open>up\<close> the scan returns the adapter of priority 9, although it was
  registered second; and of two adapters of priority 2 registered as \<open>B\<close> then \<open>A\<close> it
  returns \<open>B\<close>.
\<close>

theorem fallback_scan_misses_configured_priority:
  "enableFallback (priorities_as ''UP'')
   \<and> getAdapter ''primary'' (priorities_as ''UP'') = Inl (NotRegistered ''primary'' [''low'', ''up''])
   \<and> defaultAdapter (priorities_as ''UP'') = Some ''main''
   \<and> getAdapter ''main'' (priorities_as ''UP'') = Inl (NotRegistered ''main'' [''low'', ''up''])
   \<and> map (\<lambda>c. (name c, priority c)) (map snd (adapterConfigs (priorities_as ''UP'')))
       = [(''UP'', Some 9), (''low'', Some 1)]
   \<and> getAdapterWithFallback (Some ''primary'') (priorities_as ''UP'')
       = Inr (Some \<lparr>adapter_ref = 1, isReady = True\<rparr>)
   \<and> getAdapterWithFallback (Some ''primary'') (priorities_as ''up'')
       = Inr (Some \<lparr>adapter_ref = 2, isReady = True\<rparr>)
   \<and> getAdapterWithFallback (Some ''primary'') B_then_A
       = Inr (Some \<lparr>adapter_ref = 1, isReady = True\<rparr>)"
  by (simp add: priorities_as_def B_then_A_def registry_defs)

text \<open>
  C6. With fallback disabled, a preferred name that is supplied and whose step fails makes
  \<open>getAdapterWithFallback\<close> raise the configuration error of \<open>getAdapter\<close>; when no
  preferred name is supplied and the step of the default name fails, it raises that
  error. In both cases nothing else is returned.
\<close>

theorem fallback_disabled_raises:
  assumes "\<not> enableFallback m"
  shows "(p \<noteq> [] \<and> getAdapter p m = Inl e \<longrightarrow>
            getAdapterWithFallback (Some p) m = Inl e \<and> is_configuration_error e)
       \<and> (\<not> name_given pref \<and> defaultAdapter m = Some d \<and> d \<noteq> [] \<and> getAdapter d m = Inl e \<longrightarrow>
            getAdapterWithFallback pref m = Inl e \<and> is_configuration_error e)"
  using assms getAdapter_error_is_configuration [of _ m e]
  by (auto simp: getAdapterWithFallback_def try_preferred_def try_default_def try_named_def
      name_given_def)

theorem fallback_disabled_raises_witness:
  "\<not> enableFallback two_backends
   \<and> getAdapter ''s3'' two_backends = Inl (NotReady ''s3'')
   \<and> getAdapterWithFallback (Some ''s3'') two_backends = Inl (NotReady ''s3'')
   \<and> getAdapter ''azure'' two_backends = Inl (NotRegistered ''azure'' [''s3'', ''local''])
   \<and> getAdapterWithFallback None two_backends = Inl (NotRegistered ''azure'' [''s3'', ''local''])"
  using fallback_disabled_raises [of two_backends "''s3''" "NotReady ''s3''"]
    fallback_disabled_raises [of two_backends _ "NotRegistered ''azure'' [''s3'', ''local'']"
      None "''azure''"]
  by (simp add: two_backends_def registry_defs)

section \<open>Casing of adapter names\<close>

text \<open>Registration and resolution both lower-case the name they are given.\<close>

lemma register_then_resolve_any_casing:
  assumes "toLowerCase n' = toLowerCase n"
  shows "getAdapter n' (registerAdapter n a m) = (if isReady a then Inr a else Inl (NotReady n'))"
proof -
  have "map_of (Map_set k v ps) k = Some v" for k :: string and v :: IStorageAdapter and ps
    by (induction ps) auto
  then show ?thesis using assms
    by (simp add: getAdapter_def registerAdapter_def Map_get_def)
qed

text \<open>
  C8. The constructor stores a configuration record under its name as written, while
  \<open>registerFactory\<close> looks the record up under the lower-cased name. A record named
  \<open>s3\<close> is found by \<open>registerFactory('S3', ...)\<close> and the adapter is created; a record
  named \<open>S3\<close> is found under no casing of the factory's name, and the adapter is never
  created.
\<close>

theorem config_name_casing_lost:
  "getAdapter ''S3'' (registerFactory ''S3'' s3_factory (configured_as ''s3''))
     = Inr \<lparr>adapter_ref = 1, isReady = True\<rparr>
   \<and> getAdapter ''S3'' (registerFactory ''S3'' s3_factory (configured_as ''S3''))
     = Inl (NotRegistered ''S3'' [])
   \<and> \<not> hasAdapter ''s3'' (registerFactory ''s3'' s3_factory (configured_as ''S3''))"
  by (simp add: configured_as_def s3_factory_def registry_defs)

section \<open>Unsubscribe handles\<close>

lemmas bus_defs = on_def off_def removeAllListeners_def listenerCount_def registered_def
  new_StorageEventEmitter_def Set_add_def Set_delete_def Map_get_def Map_has_def Map_delete_def

text \<open>
  C9. After \<open>removeAllListeners\<close> the handle of an earlier subscription still holds the
  \<open>Set\<close> that was dropped from the \<open>Map\<close>. Calling it empties that \<open>Set\<close> and then
  deletes the event's entry of the \<open>Map\<close>, which by now is the \<open>Set\<close> of the listener
  subscribed afterwards: before the call listener 2 is registered, after the call no
  listener is.
\<close>

theorem stale_unsubscribe_removes_other_listener:
  "map listener_ref (registered (fst stale_unsubscribe) BEFORE_UPLOAD) = [2]
   \<and> listenerCount BEFORE_UPLOAD (fst stale_unsubscribe) = 1
   \<and> registered (snd stale_unsubscribe) BEFORE_UPLOAD = []
   \<and> listenerCount BEFORE_UPLOAD (snd stale_unsubscribe) = 0"
  by (simp add: stale_unsubscribe_def L1_def L2_def bus_defs)

section \<open>What one publish does\<close>

lemma emit_trace [simp]: "trace (snd (emit em ev d w)) = trace w @ [Emitted ev d]"
  by (simp add: emit_def Let_def split: option.splits)

lemma emit_env [simp]:
  "reads (snd (emit em ev d w)) = reads w"
  "clock (snd (emit em ev d w)) = clock w"
  "uuids (snd (emit em ev d w)) = uuids w"
  "minted (snd (emit em ev d w)) = minted w"
  by (simp_all add: emit_def Let_def split: option.splits)

lemma emit_result: "fst (emit em ev d w) = Promise_all (map (\<lambda>l. run l d) (registered em ev))"
  by (auto simp: emit_def registered_def Let_def split: option.splits)


lemma emit_isl: "fst (emit em ev d w) = fst (emit em ev d w')"
  by (simp add: emit_result)

lemmas hooks_defs = with_hooks_def try_block_def catch_block_def Date_now_def Let_def case_prod_beta

lemma catch_block_effect:
  "\<exists>d. trace (snd (catch_block ad f req cid t0 err w)) = trace w @ [Emitted f d]
       \<and> correlationId d = cid \<and> error d = Some err
       \<and> duration d = Some (clock w (reads w) - t0)
       \<and> fst (catch_block ad f req cid t0 err w)
           = (case fst (emit (eventEmitter ad) f d w) of Inl e' \<Rightarrow> Inl e' | Inr u \<Rightarrow> Inl err)"
  by (simp add: hooks_defs emit_result split: sum.splits)

lemma catch_block_env [simp]:
  "uuids (snd (catch_block ad f req cid t0 err w)) = uuids w"
  "minted (snd (catch_block ad f req cid t0 err w)) = minted w"
  "clock (snd (catch_block ad f req cid t0 err w)) = clock w"
  by (simp_all add: hooks_defs split: sum.splits)

lemma try_block_env [simp]:
  "uuids (snd (try_block ad b s req cid t0 w)) = uuids w"
  "minted (snd (try_block ad b s req cid t0 w)) = minted w"
  "clock (snd (try_block ad b s req cid t0 w)) = clock w"
  by (simp_all add: hooks_defs split: sum.splits)

lemma with_hooks_env [simp]:
  "uuids (snd (with_hooks ad b s f req cid w)) = uuids w"
  "minted (snd (with_hooks ad b s f req cid w)) = minted w"
  "clock (snd (with_hooks ad b s f req cid w)) = clock w"
  by (simp_all add: with_hooks_def Date_now_def Let_def case_prod_beta split: sum.splits)

lemma try_block_ids:
  "\<exists>es. trace (snd (try_block ad b s req cid t0 w)) = trace w @ es
        \<and> set (event_ids es) = {cid}
        \<and> (isl (fst (try_block ad b s req cid t0 w)) \<or> 2 \<le> length (event_ids es))"
  by (simp add: hooks_defs split: sum.splits)

section \<open>Trace and correlation id of one call\<close>

lemma with_hooks_ids:
  "\<exists>es. trace (snd (with_hooks ad b s f req cid w)) = trace w @ es
        \<and> set (event_ids es) = {cid} \<and> 2 \<le> length (event_ids es)"
proof -
  let ?w1 = "snd (Date_now w)"
  let ?t0 = "fst (Date_now w)"
  obtain es where es: "trace (snd (try_block ad b s req cid ?t0 ?w1)) = trace w @ es"
    "set (event_ids es) = {cid}"
    "isl (fst (try_block ad b s req cid ?t0 ?w1)) \<or> 2 \<le> length (event_ids es)"
    using try_block_ids [of ad b s req cid ?t0 ?w1] by (auto simp: Date_now_def)
  show ?thesis
  proof (cases "fst (try_block ad b s req cid ?t0 ?w1)")
    case (Inr resp)
    with es show ?thesis
      by (auto simp: with_hooks_def case_prod_beta Let_def)
  next
    case (Inl err)
    obtain d where d: "trace (snd (catch_block ad f req cid ?t0 err (snd (try_block ad b s req cid ?t0 ?w1))))
        = trace (snd (try_block ad b s req cid ?t0 ?w1)) @ [Emitted f d]" "correlationId d = cid"
      using catch_block_effect by blast
    have len: "1 \<le> length (event_ids es)"
      using es(2) by (cases "event_ids es") auto
    have ids: "event_ids (es @ [Emitted f d]) = event_ids es @ [cid]" for es
      using d(2) by (induction es rule: event_ids.induct) auto
    from Inl d es len show ?thesis
      by (auto simp: with_hooks_def case_prod_beta Let_def ids)
  qed
qed

lemma invoke_unfold:
  "invoke ad req w =
     with_hooks ad (before_kind req) (success_kind req) (failed_kind req) req
       (if is_upload req \<and> truthy (supplied_id req) then supplied_id req
        else JStr (uuids w (minted w)))
       (if is_upload req \<and> truthy (supplied_id req) then w else w\<lparr>minted := Suc (minted w)\<rparr>)"
  by (cases req)
    (simp_all add: upload_def download_def delete_def get_def list_def exists_def mint_def
      uuidv4_def Let_def)

lemma invoke_ids:
  "set (event_ids (effects_of ad req w))
     = {if is_upload req \<and> truthy (supplied_id req) then supplied_id req
        else JStr (uuids w (minted w))}
   \<and> 2 \<le> length (event_ids (effects_of ad req w))"
proof -
  let ?cid = "if is_upload req \<and> truthy (supplied_id req) then supplied_id req
        else JStr (uuids w (minted w))"
  let ?w1 = "if is_upload req \<and> truthy (supplied_id req) then w else w\<lparr>minted := Suc (minted w)\<rparr>"
  obtain es where es:
    "trace (snd (with_hooks ad (before_kind req) (success_kind req) (failed_kind req) req ?cid ?w1))
       = trace ?w1 @ es"
    "set (event_ids es) = {?cid}" "2 \<le> length (event_ids es)"
    using with_hooks_ids by blast
  have "trace ?w1 = trace w" by simp
  with es have "effects_of ad req w = es"
    by (simp add: effects_of_def invoke_unfold)
  with es show ?thesis by simp
qed

lemma invoke_minted:
  "minted (snd (invoke ad req w))
     = (if is_upload req \<and> truthy (supplied_id req) then minted w else Suc (minted w))"
  "uuids (snd (invoke ad req w)) = uuids w"
  by (simp_all add: invoke_unfold)

lemma with_hooks_tags:
  "\<exists>es. trace (snd (with_hooks ad b s f req cid w)) = trace w @ es
        \<and> event_tags es \<in> {[(b, cid), (s, cid)], [(b, cid), (s, cid), (f, cid)], [(b, cid), (f, cid)]}"
  by (simp add: hooks_defs split: sum.splits)

lemma invoke_tags:
  "\<exists>c. event_tags (effects_of ad req w)
     \<in> {[(before_kind req, c), (success_kind req, c)],
         [(before_kind req, c), (success_kind req, c), (failed_kind req, c)],
         [(before_kind req, c), (failed_kind req, c)]}"
proof -
  let ?cid = "if is_upload req \<and> truthy (supplied_id req) then supplied_id req
        else JStr (uuids w (minted w))"
  let ?w1 = "if is_upload req \<and> truthy (supplied_id req) then w else w\<lparr>minted := Suc (minted w)\<rparr>"
  obtain es where es:
    "trace (snd (with_hooks ad (before_kind req) (success_kind req) (failed_kind req) req ?cid ?w1))
       = trace ?w1 @ es"
    "event_tags es \<in> {[(before_kind req, ?cid), (success_kind req, ?cid)],
         [(before_kind req, ?cid), (success_kind req, ?cid), (failed_kind req, ?cid)],
         [(before_kind req, ?cid), (failed_kind req, ?cid)]}"
    using with_hooks_tags by blast
  have "trace ?w1 = trace w" by simp
  with es have "effects_of ad req w = es"
    by (simp add: effects_of_def invoke_unfold)
  with es show ?thesis by blast
qed

lemma with_hooks_before_rejects:
  assumes "fst (emit (eventEmitter ad) b
                  \<lparr>adapterName = providerName ad, timestamp = clock w (Suc (reads w)),
                   correlationId = cid, subject = req, response = None, error = None,
                   duration = None\<rparr> w) = Inl e"
  shows "\<exists>d1. trace (snd (with_hooks ad b s f req cid w))
              = trace w @ [Emitted b \<lparr>adapterName = providerName ad,
                                       timestamp = clock w (Suc (reads w)),
                                       correlationId = cid, subject = req, response = None,
                                       error = None, duration = None\<rparr>,
                           Emitted f d1]
          \<and> correlationId d1 = cid \<and> error d1 = Some e
          \<and> duration d1 = Some (clock w (reads w + 2) - clock w (reads w))
          \<and> fst (with_hooks ad b s f req cid w)
              = (case fst (emit (eventEmitter ad) f d1 w) of Inl e' \<Rightarrow> Inl e' | Inr u \<Rightarrow> Inl e)"
proof -
  let ?d0 = "\<lparr>adapterName = providerName ad, timestamp = clock w (Suc (reads w)),
              correlationId = cid, subject = req, response = None, error = None,
              duration = None\<rparr>"
  have "fst (emit (eventEmitter ad) b ?d0 w') = Inl e" for w'
    using assms emit_isl [of "eventEmitter ad" b ?d0 w' w] by simp
  then show ?thesis
    using emit_isl by (simp add: hooks_defs emit_result split: sum.splits)
qed

lemmas envelope_defs =
  upload_def download_def delete_def get_def list_def exists_def mint_def uuidv4_def
  with_hooks_def try_block_def catch_block_def Date_now_def emit_def
  adapter_with_def ticking_world_def ok_backend_def failing_backend_def effects_of_def
  traced_options_def

section \<open>Listeners of the pre-event\<close>

text \<open>
  C1. A listener of \<open>beforeUpload\<close> that throws before returning does not stop the
  upload: \<open>emit\<close> catches and logs the error, the backend is called and the caller
  receives the backend's response. The same listener returning a rejected promise does stop
  it: the caller receives the listener's error and the backend is not called.
\<close>

theorem sync_throw_in_before_listener_does_not_veto:
  "fst (upload (adapter_with BEFORE_UPLOAD (Throws (Error ''File too large'')) ok_backend)
          large_file JUndefined ticking_world)
     = Inr (Response True (JStr ''stored''))
   \<and> Performed (UploadRequest large_file JUndefined)
       \<in> set (trace (snd (upload (adapter_with BEFORE_UPLOAD (Throws (Error ''File too large'')) ok_backend)
                             large_file JUndefined ticking_world)))
   \<and> console (snd (upload (adapter_with BEFORE_UPLOAD (Throws (Error ''File too large'')) ok_backend)
                      large_file JUndefined ticking_world))
       = [(BEFORE_UPLOAD, Error ''File too large'')]
   \<and> fst (upload (adapter_with BEFORE_UPLOAD (Rejects (Error ''File too large'')) ok_backend)
          large_file JUndefined ticking_world)
     = Inl (Error ''File too large'')
   \<and> Performed (UploadRequest large_file JUndefined)
       \<notin> set (trace (snd (upload (adapter_with BEFORE_UPLOAD (Rejects (Error ''File too large'')) ok_backend)
                             large_file JUndefined ticking_world)))"
  by (simp add: envelope_defs bus_defs Let_def)

text \<open>
  When the publish of the pre-event, with the record the call publishes, is rejected with
  an error, the call adds exactly two effects to the trace, the pre-event and the failure
  event, and no call of the backend. The failure event carries the correlation id of the
  pre-event, that error as its \<open>error\<close> and, as its \<open>duration\<close>, the third reading of
  the clock minus the first. The caller then receives that error when the publish of the
  failure event resolves, and the error of that publish when it is rejected.
\<close>

lemma rejected_pre_event_emits_failure:
  assumes "fst (emit (eventEmitter ad) (before_kind req) (pre_event ad req w) w) = Inl e"
  shows "\<exists>d1. effects_of ad req w
              = [Emitted (before_kind req) (pre_event ad req w), Emitted (failed_kind req) d1]
          \<and> correlationId d1 = correlationId (pre_event ad req w) \<and> error d1 = Some e
          \<and> duration d1 = Some (clock w (reads w + 2) - clock w (reads w))
          \<and> fst (invoke ad req w)
              = (case fst (emit (eventEmitter ad) (failed_kind req) d1 w) of
                   Inl e' \<Rightarrow> Inl e' | Inr u \<Rightarrow> Inl e)"
proof -
  let ?cid = "if is_upload req \<and> truthy (supplied_id req) then supplied_id req
        else JStr (uuids w (minted w))"
  let ?w1 = "if is_upload req \<and> truthy (supplied_id req) then w else w\<lparr>minted := Suc (minted w)\<rparr>"
  have w1: "trace ?w1 = trace w" "clock ?w1 = clock w" "reads ?w1 = reads w" by simp_all
  let ?d0 = "\<lparr>adapterName = providerName ad, timestamp = clock ?w1 (Suc (reads ?w1)),
              correlationId = ?cid, subject = req, response = None, error = None,
              duration = None\<rparr>"
  have d0: "?d0 = pre_event ad req w"
    using w1 by (simp add: pre_event_def)
  have rej: "fst (emit (eventEmitter ad) (before_kind req) ?d0 ?w1) = Inl e"
    using assms emit_isl [of "eventEmitter ad" "before_kind req" "pre_event ad req w" ?w1 w]
    by (simp only: d0)
  obtain d1 where h:
    "trace (snd (with_hooks ad (before_kind req) (success_kind req) (failed_kind req) req ?cid ?w1))
       = trace ?w1 @ [Emitted (before_kind req) ?d0, Emitted (failed_kind req) d1]"
    "correlationId d1 = ?cid" "error d1 = Some e"
    "duration d1 = Some (clock ?w1 (reads ?w1 + 2) - clock ?w1 (reads ?w1))"
    "fst (with_hooks ad (before_kind req) (success_kind req) (failed_kind req) req ?cid ?w1)
       = (case fst (emit (eventEmitter ad) (failed_kind req) d1 ?w1) of
            Inl e' \<Rightarrow> Inl e' | Inr u \<Rightarrow> Inl e)"
    using with_hooks_before_rejects [OF rej] by blast
  have "effects_of ad req w
          = [Emitted (before_kind req) (pre_event ad req w), Emitted (failed_kind req) d1]"
    using h(1) w1(1) by (simp only: d0 effects_of_def invoke_unfold) simp
  moreover have "fst (invoke ad req w)
      = (case fst (emit (eventEmitter ad) (failed_kind req) d1 w) of
           Inl e' \<Rightarrow> Inl e' | Inr u \<Rightarrow> Inl e)"
    using h(5) emit_isl [of "eventEmitter ad" "failed_kind req" d1 ?w1 w]
    by (simp add: invoke_unfold)
  moreover have "correlationId d1 = correlationId (pre_event ad req w)"
    using h(2) by (simp add: pre_event_def)
  ultimately show ?thesis using h(3,4) w1 by auto
qed

text \<open>
  C10. A listener of \<open>beforeUpload\<close> returns a promise rejected with \<open>File too large\<close>
  and a listener of \<open>uploadFailed\<close> returns a promise rejected with \<open>audit failed\<close>.
  The call publishes the pre-event and then the failure event, which carries
  \<open>File too large\<close> and a duration of ten milliseconds, and does not call the backend;
  but the caller receives \<open>audit failed\<close>. With the second listener throwing before it
  returns, the caller receives \<open>File too large\<close>.
\<close>

theorem vetoed_upload_raises_failure_listener_error:
  "effects_of (adapter_with2 BEFORE_UPLOAD (Rejects (Error ''File too large''))
                             UPLOAD_FAILED (Rejects (Error ''audit failed'')) ok_backend)
              (UploadRequest large_file JUndefined) ticking_world
     = [Emitted BEFORE_UPLOAD
          \<lparr>adapterName = ''local'', timestamp = 1005, correlationId = JStr ''uuid-'',
           subject = UploadRequest large_file JUndefined, response = None, error = None,
           duration = None\<rparr>,
        Emitted UPLOAD_FAILED
          \<lparr>adapterName = ''local'', timestamp = 1015, correlationId = JStr ''uuid-'',
           subject = UploadRequest large_file JUndefined, response = None,
           error = Some (Error ''File too large''), duration = Some 10\<rparr>]
   \<and> fst (upload (adapter_with2 BEFORE_UPLOAD (Rejects (Error ''File too large''))
                                UPLOAD_FAILED (Rejects (Error ''audit failed'')) ok_backend)
            large_file JUndefined ticking_world)
       = Inl (Error ''audit failed'')
   \<and> fst (upload (adapter_with2 BEFORE_UPLOAD (Rejects (Error ''File too large''))
                                UPLOAD_FAILED (Throws (Error ''audit failed'')) ok_backend)
            large_file JUndefined ticking_world)
       = Inl (Error ''File too large'')"
  by (simp add: envelope_defs adapter_with2_def bus_defs Let_def)

section \<open>Listeners of the success and failure events\<close>

text \<open>
  C2. A listener of the success event that returns a rejected promise replaces the
  backend's response by its own error, and a listener of the failure event that returns a
  rejected promise replaces the backend's error by its own. The same listeners throwing
  before they return change nothing: the caller receives the backend's response, or the
  backend's error, and the listener's error is logged.
\<close>

theorem rejecting_listener_masks_outcome:
  "perform (adapter_with AFTER_UPLOAD_SUCCESS (Rejects (Error ''notify failed'')) ok_backend)
       (UploadRequest large_file JUndefined)
     = Inr (Response True (JStr ''stored''))
   \<and> fst (upload (adapter_with AFTER_UPLOAD_SUCCESS (Rejects (Error ''notify failed'')) ok_backend)
          large_file JUndefined ticking_world)
     = Inl (Error ''notify failed'')
   \<and> event_tags (effects_of (adapter_with AFTER_UPLOAD_SUCCESS (Rejects (Error ''notify failed'')) ok_backend)
                    (UploadRequest large_file JUndefined) ticking_world)
     = [(BEFORE_UPLOAD, JStr ''uuid-''), (AFTER_UPLOAD_SUCCESS, JStr ''uuid-''),
        (UPLOAD_FAILED, JStr ''uuid-'')]
   \<and> perform (adapter_with UPLOAD_FAILED (Rejects (Error ''audit failed'')) failing_backend)
       (UploadRequest large_file JUndefined)
     = Inl (Error ''disk full'')
   \<and> fst (upload (adapter_with UPLOAD_FAILED (Rejects (Error ''audit failed'')) failing_backend)
          large_file JUndefined ticking_world)
     = Inl (Error ''audit failed'')
   \<and> fst (upload (adapter_with AFTER_UPLOAD_SUCCESS (Throws (Error ''notify failed'')) ok_backend)
          large_file JUndefined ticking_world)
     = Inr (Response True (JStr ''stored''))
   \<and> console (snd (upload (adapter_with AFTER_UPLOAD_SUCCESS (Throws (Error ''notify failed'')) ok_backend)
                      large_file JUndefined ticking_world))
     = [(AFTER_UPLOAD_SUCCESS, Error ''notify failed'')]
   \<and> fst (upload (adapter_with UPLOAD_FAILED (Throws (Error ''audit failed'')) failing_backend)
          large_file JUndefined ticking_world)
     = Inl (Error ''disk full'')
   \<and> console (snd (upload (adapter_with UPLOAD_FAILED (Throws (Error ''audit failed'')) failing_backend)
                      large_file JUndefined ticking_world))
     = [(UPLOAD_FAILED, Error ''audit failed'')]"
  by (simp add: envelope_defs bus_defs Let_def)

section \<open>Correlation ids\<close>

text \<open>
  C3, as stated, fails: \<open>download\<close> called with a correlation id under the metadata of
  its options emits its events with a newly minted id.
\<close>

theorem download_ignores_supplied_id:
  "supplied_id (DownloadRequest ''doc.pdf'' traced_options) = JStr ''user-123-upload-456''
   \<and> event_ids (effects_of (adapter_with BEFORE_UPLOAD Returns ok_backend)
                  (DownloadRequest ''doc.pdf'' traced_options) ticking_world)
       = [JStr ''uuid-'', JStr ''uuid-'']"
  by (simp add: envelope_defs bus_defs Let_def)

text \<open>
  C3, amended. Every event one call emits carries one id: for \<open>upload\<close> with a truthy
  \<open>options.metadata.correlationId\<close> it is that value, and no id is minted; in every
  other case (the other five operations, and \<open>upload\<close> without such a value) it is the
  next id of the generator, which is minted once.
\<close>

theorem upload_reuses_supplied_id:
  "set (event_ids (effects_of ad req w))
     = {if is_upload req \<and> truthy (supplied_id req) then supplied_id req
        else JStr (uuids w (minted w))}
   \<and> minted (snd (invoke ad req w))
     = (if is_upload req \<and> truthy (supplied_id req) then minted w else Suc (minted w))"
  using invoke_ids [of ad req w] invoke_minted(1) [of ad req w] by simp

theorem upload_reuses_supplied_id_witness:
  "set (event_ids (effects_of (adapter_with BEFORE_UPLOAD Returns ok_backend)
                     (UploadRequest large_file traced_options) ticking_world))
     = {JStr ''user-123-upload-456''}
   \<and> minted (snd (invoke (adapter_with BEFORE_UPLOAD Returns ok_backend)
                     (UploadRequest large_file traced_options) ticking_world)) = 0
   \<and> set (event_ids (effects_of (adapter_with BEFORE_UPLOAD Returns ok_backend)
                     (UploadRequest large_file JUndefined) ticking_world))
     = {JStr ''uuid-''}
   \<and> minted (snd (invoke (adapter_with BEFORE_UPLOAD Returns ok_backend)
                     (UploadRequest large_file JUndefined) ticking_world)) = 1"
  using
    upload_reuses_supplied_id [of "adapter_with BEFORE_UPLOAD Returns ok_backend"
      "UploadRequest large_file traced_options" ticking_world]
    upload_reuses_supplied_id [of "adapter_with BEFORE_UPLOAD Returns ok_backend"
      "UploadRequest large_file JUndefined" ticking_world]
  by (simp add: traced_options_def ticking_world_def)

text \<open>
  C4. The events of one call are the pre-event followed by the success event, by the
  failure event, or by both (when the publish of the success event is rejected), and all
  of them carry one and the same correlation id. Two calls in sequence, neither with a
  supplied id, carry different ids, given that the generator returns different values on
  its two successive calls.
\<close>

theorem correlation_id_stable_and_fresh:
  "(\<exists>c. event_tags (effects_of ad req w)
       \<in> {[(before_kind req, c), (success_kind req, c)],
           [(before_kind req, c), (success_kind req, c), (failed_kind req, c)],
           [(before_kind req, c), (failed_kind req, c)]})
   \<and> (\<not> truthy (supplied_id req) \<and> \<not> truthy (supplied_id req')
        \<and> uuids w (minted w) \<noteq> uuids w (Suc (minted w)) \<longrightarrow>
      set (event_ids (effects_of ad req w))
        \<inter> set (event_ids (effects_of ad' req' (snd (invoke ad req w)))) = {})"
  using invoke_tags [of ad req w] invoke_ids [of ad req w]
    invoke_ids [of ad' req' "snd (invoke ad req w)"] invoke_minted [of ad req w]
  by auto

theorem correlation_id_stable_and_fresh_witness:
  "event_tags (effects_of (adapter_with BEFORE_GET Returns ok_backend)
                        (GetRequest ''a.txt'') ticking_world)
     = [(BEFORE_GET, JStr ''uuid-''), (AFTER_GET_SUCCESS, JStr ''uuid-'')]
   \<and> event_tags (effects_of (adapter_with BEFORE_GET Returns ok_backend)
                        (ExistsRequest ''a.txt'')
                        (snd (invoke (adapter_with BEFORE_GET Returns ok_backend)
                                (GetRequest ''a.txt'') ticking_world)))
     = [(BEFORE_EXISTS, JStr ''uuid-x''), (AFTER_EXISTS_SUCCESS, JStr ''uuid-x'')]
   \<and> \<not> truthy (supplied_id (GetRequest ''a.txt''))
   \<and> \<not> truthy (supplied_id (ExistsRequest ''a.txt''))
   \<and> uuids ticking_world (minted ticking_world) \<noteq> uuids ticking_world (Suc (minted ticking_world))
   \<and> set (event_ids (effects_of (adapter_with BEFORE_GET Returns ok_backend)
                        (GetRequest ''a.txt'') ticking_world))
        \<inter> set (event_ids (effects_of (adapter_with BEFORE_GET Returns ok_backend)
                        (ExistsRequest ''a.txt'')
                        (snd (invoke (adapter_with BEFORE_GET Returns ok_backend)
                                (GetRequest ''a.txt'') ticking_world)))) = {}"
proof -
  let ?ad = "adapter_with BEFORE_GET Returns ok_backend"
  have tags: "event_tags (effects_of ?ad (GetRequest ''a.txt'') ticking_world)
     = [(BEFORE_GET, JStr ''uuid-''), (AFTER_GET_SUCCESS, JStr ''uuid-'')]"
    "event_tags (effects_of ?ad (ExistsRequest ''a.txt'')
        (snd (invoke ?ad (GetRequest ''a.txt'') ticking_world)))
     = [(BEFORE_EXISTS, JStr ''uuid-x''), (AFTER_EXISTS_SUCCESS, JStr ''uuid-x'')]"
    by (simp_all add: envelope_defs bus_defs Let_def)
  show ?thesis
    using tags correlation_id_stable_and_fresh
      [where ad = ?ad and req = "GetRequest ''a.txt''"
         and w = ticking_world and req' = "ExistsRequest ''a.txt''" and ad' = ?ad]
    by (simp add: ticking_world_def)
qed

end
